theory Spec2Isabelle
  imports Complex_Main "HOL-Library.Word"
begin

section \<open>Sender firmware: the hard gate before a batch is transmitted\<close>

text \<open>
  The sender sketch (\<^verbatim>\<open>esp32s3-gps-mpu-button-sender.ino\<close>) keeps its health signals in
  global variables and decides, when the button is released, whether the averaged batch is
  sent. \<^verbatim>\<open>unsigned long\<close> is 32 bits wide on the ESP32, so every timestamp is a
  \<open>32 word\<close> and every age \<open>millis() - stamp\<close> wraps modulo \<open>2 ^ 32\<close>; comparisons are
  unsigned.
\<close>

type_synonym ms = "32 word"

record sender =
  peerAdded :: bool
  lastSendSuccessTs :: ms
  mpuReady :: bool
  mpuLastOK :: ms
  lastGpsCharMs :: ms
  lastGpsUpdateMs :: ms
  pressStart :: ms

text \<open>
  What the TinyGPSPlus object answers when \<^verbatim>\<open>gpsFixOK\<close> asks it: the library is not part
  of the repository, so the three answers are inputs.
\<close>

record gps =
  location_isValid :: bool
  location_age :: ms
  satellites_value :: "32 word"

text \<open>
  A \<open>sender\<close> holds the value each variable has when the gate reads it. A \<open>clock\<close>
  holds every call of \<^verbatim>\<open>millis()\<close> made on the way through the gate, in program order: the
  one in \<^verbatim>\<open>linkOK\<close> at the top of \<^verbatim>\<open>loop\<close>, the one that measures the hold, and those
  inside \<^verbatim>\<open>mpuHealthy\<close>, \<^verbatim>\<open>gpsPresent\<close> and \<^verbatim>\<open>gpsFresh\<close>.
\<close>

record clock =
  at_link :: ms
  at_release :: ms
  at_mpu :: ms
  at_gps_char :: ms
  at_gps_update :: ms

definition TEN_SEC_MS :: ms where
  "TEN_SEC_MS = 10000"

definition mpuHealthy :: "ms \<Rightarrow> sender \<Rightarrow> bool" where
  "mpuHealthy now s \<longleftrightarrow> mpuReady s \<and> now - mpuLastOK s < 1200"

definition gpsPresent :: "ms \<Rightarrow> sender \<Rightarrow> bool" where
  "gpsPresent now s \<longleftrightarrow> now - lastGpsCharMs s < 3000"

definition gpsFresh :: "ms \<Rightarrow> sender \<Rightarrow> bool" where
  "gpsFresh now s \<longleftrightarrow> now - lastGpsUpdateMs s < 3000"

definition gpsFixOK :: "clock \<Rightarrow> sender \<Rightarrow> gps \<Rightarrow> bool" where
  "gpsFixOK c s g \<longleftrightarrow>
     gpsPresent (at_gps_char c) s \<and> gpsFresh (at_gps_update c) s \<and>
     location_isValid g \<and> location_age g < 2000 \<and> satellites_value g \<ge> 1"

definition linkOK :: "ms \<Rightarrow> sender \<Rightarrow> bool" where
  "linkOK now s \<longleftrightarrow>
     peerAdded s \<and> lastSendSuccessTs s \<noteq> 0 \<and> now - lastSendSuccessTs s < 5000"

datatype deny_reason = HoldTooShort | LinkDown | SensorUnhealthy | NoPositionFix

datatype gate = Allow | Deny deny_reason

text \<open>
  The four early returns of \<^verbatim>\<open>loop\<close> on button release, in the order of the source;
  \<open>Allow\<close> is falling through to \<^verbatim>\<open>makePacket\<close> and \<^verbatim>\<open>esp_now_send\<close>.
\<close>

definition hard_gate :: "clock \<Rightarrow> sender \<Rightarrow> gps \<Rightarrow> gate" where
  "hard_gate c s g =
     (let link = linkOK (at_link c) s;
          dur = at_release c - pressStart s
      in if dur < TEN_SEC_MS then Deny HoldTooShort
         else if \<not> peerAdded s \<or> \<not> link then Deny LinkDown
         else if \<not> mpuHealthy (at_mpu c) s then Deny SensorUnhealthy
         else if \<not> gpsFixOK c s g then Deny NoPositionFix
         else Allow)"

text \<open>The quantities the specification speaks about, read off the same state.\<close>

definition hold_duration :: "clock \<Rightarrow> sender \<Rightarrow> ms" where
  "hold_duration c s = at_release c - pressStart s"

definition link_age :: "clock \<Rightarrow> sender \<Rightarrow> ms" where
  "link_age c s = at_link c - lastSendSuccessTs s"

definition sensor_age :: "clock \<Rightarrow> sender \<Rightarrow> ms" where
  "sensor_age c s = at_mpu c - mpuLastOK s"

text \<open>
  The four conditions as the specification lists them, without the extra guards of the
  firmware.
\<close>

definition spec_conditions :: "clock \<Rightarrow> sender \<Rightarrow> gps \<Rightarrow> bool" where
  "spec_conditions c s g \<longleftrightarrow>
     hold_duration c s \<ge> 10000 \<and> link_age c s < 5000 \<and> sensor_age c s < 1200 \<and>
     (location_isValid g \<and> location_age g < 2000 \<and> satellites_value g \<ge> 1)"

text \<open>Concrete states: a stamp taken at 20000 ms, read 100 ms later, after a 10 s hold.\<close>

definition healthy :: sender where
  "healthy = \<lparr>peerAdded = True, lastSendSuccessTs = 20000, mpuReady = True,
     mpuLastOK = 20000, lastGpsCharMs = 20000, lastGpsUpdateMs = 20000,
     pressStart = 10100\<rparr>"

definition tick :: "ms \<Rightarrow> clock" where
  "tick t = \<lparr>at_link = t, at_release = t, at_mpu = t, at_gps_char = t, at_gps_update = t\<rparr>"

definition fix6 :: gps where
  "fix6 = \<lparr>location_isValid = True, location_age = 100, satellites_value = 6\<rparr>"


text \<open>
  The sensor was unplugged less than 1200 ms after its last good read: \<^verbatim>\<open>serviceMPU\<close>
  has cleared \<^verbatim>\<open>mpuReady\<close>, \<^verbatim>\<open>mpuLastOK\<close> is still recent.
\<close>

definition unplugged :: sender where
  "unplugged = healthy\<lparr>mpuReady := False\<rparr>"

text \<open>
  No transmission was ever acknowledged. In \<open>never_acked\<close> the button went down 8 s
  before the millisecond counter wrapped and is released 3 s after: the hold is 11 s
  and the raw age \<open>millis() - 0\<close> is 3000.
\<close>

definition never_acked :: sender where
  "never_acked = \<lparr>peerAdded = True, lastSendSuccessTs = 0, mpuReady = True,
     mpuLastOK = 2900, lastGpsCharMs = 2900, lastGpsUpdateMs = 2900,
     pressStart = 4294959296\<rparr>"

definition just_booted :: sender where
  "just_booted = \<lparr>peerAdded = True, lastSendSuccessTs = 0, mpuReady = True,
     mpuLastOK = 4900, lastGpsCharMs = 4900, lastGpsUpdateMs = 4900,
     pressStart = 1000\<rparr>"


section \<open>Backend: the limit of the paginated read\<close>

text \<open>
  \<^verbatim>\<open>const limit = Math.min(parseInt(req.query.limit) || 100, 1000);\<close>
  The argument is what \<^verbatim>\<open>parseInt\<close> returned: \<open>None\<close> is \<^verbatim>\<open>NaN\<close> (no parameter, or no
  leading integer in it), \<open>Some n\<close> the integer read. \<^verbatim>\<open>NaN\<close> and \<open>0\<close> are the falsy
  numbers, so \<^verbatim>\<open>||\<close> replaces exactly those by 100.
\<close>

definition or_default :: "int option \<Rightarrow> int \<Rightarrow> int" where
  "or_default p d = (case p of None \<Rightarrow> d | Some n \<Rightarrow> if n = 0 then d else n)"

definition effective_limit :: "int option \<Rightarrow> int" where
  "effective_limit p = min (or_default p 100) 1000"

definition effective_skip :: "int option \<Rightarrow> int" where
  "effective_skip p = or_default p 0"

text \<open>The limit as the specification words it: default 100, clamped to 1 and 1000.\<close>

definition spec_limit :: "int option \<Rightarrow> int" where
  "spec_limit p = (case p of None \<Rightarrow> 100 | Some n \<Rightarrow> max 1 (min n 1000))"


section \<open>Backend and bridge: documents and the samples collection\<close>

text \<open>
  A sample is whatever JSON object arrives: neither \<^verbatim>\<open>server.js\<close> nor \<^verbatim>\<open>bridge.js\<close>
  declares a schema. A document is a map from field names to values; \<open>JDate\<close> is the
  \<^verbatim>\<open>Date\<close> object the handlers create (milliseconds since the epoch), \<open>JOid\<close> the
  \<^verbatim>\<open>ObjectId\<close> the driver creates.
\<close>

datatype jval =
    JNull
  | JBool bool
  | JNum rat
  | JStr string
  | JDate int
  | JOid nat
  | JArr "jval list"
  | JObj "(string \<times> jval) list"

type_synonym doc = "string \<rightharpoonup> jval"

text \<open>
  JavaScript truthiness of \<^verbatim>\<open>data.field\<close>: a missing field is \<^verbatim>\<open>undefined\<close>; \<^verbatim>\<open>null\<close>,
  \<^verbatim>\<open>false\<close>, \<open>0\<close> and the empty string are falsy, every object is truthy.
\<close>

fun truthy :: "jval option \<Rightarrow> bool" where
  "truthy None = False"
| "truthy (Some JNull) = False"
| "truthy (Some (JBool b)) = b"
| "truthy (Some (JNum n)) = (n \<noteq> 0)"
| "truthy (Some (JStr s)) = (s \<noteq> [])"
| "truthy (Some (JDate t)) = True"
| "truthy (Some (JOid n)) = True"
| "truthy (Some (JArr xs)) = True"
| "truthy (Some (JObj kvs)) = True"

text \<open>
  The collection has two unique indexes: the one every collection has on \<^verbatim>\<open>_id\<close>, and
  \<^verbatim>\<open>createIndex({ batchId: 1 }, { unique: true })\<close>. The second is not sparse: a document
  without the field is indexed under \<^verbatim>\<open>null\<close>. An array is indexed under each of its
  elements, the empty array under \<^verbatim>\<open>undefined\<close>.
\<close>

datatype index_entry = Undefined_key | Key jval

fun keys_of :: "jval option \<Rightarrow> index_entry list" where
  "keys_of None = [Key JNull]"
| "keys_of (Some (JArr [])) = [Undefined_key]"
| "keys_of (Some (JArr (x # xs))) = map Key (x # xs)"
| "keys_of (Some v) = [Key v]"

definition batch_keys :: "doc \<Rightarrow> index_entry list" where
  "batch_keys d = keys_of (d ''batchId'')"

definition indexed_under :: "jval \<Rightarrow> doc \<Rightarrow> bool" where
  "indexed_under k d \<longleftrightarrow> Key k \<in> set (batch_keys d)"

text \<open>Two documents that cannot both be in the collection.\<close>

definition clash :: "doc \<Rightarrow> doc \<Rightarrow> bool" where
  "clash d e \<longleftrightarrow> d ''_id'' = e ''_id'' \<or> (\<exists>k\<in>set (batch_keys d). k \<in> set (batch_keys e))"

definition taken :: "doc list \<Rightarrow> doc \<Rightarrow> bool" where
  "taken coll d \<longleftrightarrow> (\<exists>e\<in>set coll. clash d e)"


text \<open>
  The driver gives a document that comes with no \<^verbatim>\<open>_id\<close>
  (\<^verbatim>\<open>doc._id == null\<close>: missing or \<^verbatim>\<open>null\<close>) a new \<^verbatim>\<open>ObjectId\<close> before it sends it,
  writing it into the object it was passed. An \<^verbatim>\<open>ObjectId\<close> it creates is one that no
  stored document has: here the number after the largest one in the collection.
\<close>

fun oid_of :: "jval option \<Rightarrow> nat" where
  "oid_of (Some (JOid n)) = n"
| "oid_of v = 0"

fun newest :: "doc list \<Rightarrow> nat" where
  "newest [] = 0"
| "newest (e # es) = max (oid_of (e ''_id'')) (newest es)"

definition createPk :: "doc list \<Rightarrow> jval" where
  "createPk coll = JOid (Suc (newest coll))"

fun lacks_id :: "jval option \<Rightarrow> bool" where
  "lacks_id None \<longleftrightarrow> True"
| "lacks_id (Some JNull) \<longleftrightarrow> True"
| "lacks_id (Some v) \<longleftrightarrow> False"

definition add_missing_id :: "doc list \<Rightarrow> doc \<Rightarrow> doc" where
  "add_missing_id coll d = (if lacks_id (d ''_id'') then d(''_id'' \<mapsto> createPk coll) else d)"

text \<open>
  What \<^verbatim>\<open>insertOne\<close> can throw: the duplicate-key error of either index
  (\<^verbatim>\<open>error.code === 11000\<close>) or anything else (the store cannot be reached, or it
  refuses the document for another reason).
\<close>

datatype mongo_error = DuplicateKey | Other_failure

text \<open>
  \<^verbatim>\<open>await samplesCollection.insertOne(data)\<close> against the two indexes. \<open>up\<close> is the
  part of the environment: it is false when this call ends with an error that is not
  the duplicate-key error. The check and the append are one step of the store.
\<close>

definition insertOne :: "bool \<Rightarrow> doc list \<Rightarrow> doc \<Rightarrow> mongo_error + doc list" where
  "insertOne up coll d =
     (if \<not> up then Inl Other_failure
      else (let sent_doc = add_missing_id coll d
            in if taken coll sent_doc then Inl DuplicateKey else Inr (coll @ [sent_doc])))"

definition thrown :: "mongo_error + doc list \<Rightarrow> mongo_error option" where
  "thrown r = (case r of Inl e \<Rightarrow> Some e | Inr coll \<Rightarrow> None)"

definition committed :: "doc list \<Rightarrow> mongo_error + doc list \<Rightarrow> doc list" where
  "committed coll r = (case r of Inl e \<Rightarrow> coll | Inr coll' \<Rightarrow> coll')"

text \<open>A sample, as the driver would send it, clashes with a stored document.\<close>

definition collides :: "doc list \<Rightarrow> doc \<Rightarrow> bool" where
  "collides coll body \<longleftrightarrow> taken coll (add_missing_id coll body)"


section \<open>Subscribers and broadcast\<close>

text \<open>
  A WebSocket connection as \<^verbatim>\<open>broadcastToWS\<close> sees it: its identity, its \<^verbatim>\<open>readyState\<close>
  (0 connecting, 1 open, 2 closing, 3 closed) and whether \<^verbatim>\<open>send\<close> throws. \<^verbatim>\<open>wsClients\<close>
  is a \<^verbatim>\<open>Set\<close>, iterated in insertion order: a list without repeated handles.
\<close>

record conn =
  handle :: nat
  readyState :: nat
  send_throws :: bool

datatype ws_message = connected | new_sample doc

type_synonym frame = "nat \<times> ws_message"

definition wsClients_delete :: "conn \<Rightarrow> conn list \<Rightarrow> conn list" where
  "wsClients_delete ws cs = filter (\<lambda>c. handle c \<noteq> handle ws) cs"

text \<open>The \<^verbatim>\<open>close\<close> and \<^verbatim>\<open>error\<close> handlers registered in \<^verbatim>\<open>wss.on('connection')\<close>.\<close>

definition on_close :: "conn \<Rightarrow> conn list \<Rightarrow> conn list" where
  "on_close ws cs = wsClients_delete ws cs"

definition on_error :: "conn \<Rightarrow> conn list \<Rightarrow> conn list" where
  "on_error ws cs = wsClients_delete ws cs"

text \<open>
  The body of \<^verbatim>\<open>wsClients.forEach\<close>: the frames put on the wire and the counter
  \<^verbatim>\<open>sent\<close>. A throwing \<^verbatim>\<open>send\<close> is caught and logged, the loop goes on.
\<close>

fun forEach_send :: "ws_message \<Rightarrow> conn list \<Rightarrow> nat \<Rightarrow> frame list \<times> nat" where
  "forEach_send payload [] sent = ([], sent)"
| "forEach_send payload (client # rest) sent =
     (if readyState client = 1 then
        (if send_throws client then forEach_send payload rest sent
         else (let (fs, n) = forEach_send payload rest (sent + 1)
               in ((handle client, payload) # fs, n)))
      else forEach_send payload rest sent)"

text \<open>
  \<^verbatim>\<open>broadcastToWS\<close> of the backend. The message is serialised once, before the loop; a
  frame is identified with the message it carries. The function returns normally in
  every case and does not touch \<^verbatim>\<open>wsClients\<close>: the set after the call is returned
  beside the frames.
\<close>

record broadcast =
  frames :: "frame list"
  sent :: nat
  wsClients :: "conn list"

definition broadcastToWS :: "conn list \<Rightarrow> ws_message \<Rightarrow> broadcast" where
  "broadcastToWS cs message =
     (let payload = message;
          (fs, n) = forEach_send payload cs 0
      in \<lparr>frames = fs, sent = n, wsClients = cs\<rparr>)"

text \<open>
  \<^verbatim>\<open>broadcastToWS\<close> of the bridge: it wraps the data itself and returns at once when
  \<^verbatim>\<open>WS_ENABLED\<close> is off or nobody is connected.
\<close>

definition bridge_broadcastToWS :: "bool \<Rightarrow> conn list \<Rightarrow> doc \<Rightarrow> broadcast" where
  "bridge_broadcastToWS WS_ENABLED cs data =
     (if \<not> WS_ENABLED \<or> length cs = 0 then \<lparr>frames = [], sent = 0, wsClients = cs\<rparr>
      else (let payload = new_sample data;
                (fs, n) = forEach_send payload cs 0
            in \<lparr>frames = fs, sent = n, wsClients = cs\<rparr>))"


section \<open>The two write paths\<close>

text \<open>
  What a handler does besides the insert: its answer, the calls of \<^verbatim>\<open>broadcastToWS\<close>
  it made (with the data passed) and the frames those put on the wire.
\<close>

record 'r effects =
  reply :: 'r
  calls :: "doc list"
  pushed :: "frame list"

datatype post_response =
    Created_201 "jval option"
  | Conflict_409
  | Error_500

text \<open>
  \<^verbatim>\<open>app.post('/v1/samples')\<close>, for a request that passed \<^verbatim>\<open>authenticate\<close> and whose body
  \<^verbatim>\<open>express.json()\<close> parsed to an object. \<open>t1\<close> and \<open>t2\<close> are the two \<^verbatim>\<open>new Date()\<close>.
  The handler is split at its \<^verbatim>\<open>await\<close>: what it inserts, and what it does once
  \<^verbatim>\<open>insertOne\<close> has returned or thrown. After the call \<^verbatim>\<open>data\<close> carries the
  \<^verbatim>\<open>_id\<close> the driver wrote into it: \<open>post_stored\<close> is the object that is stored and
  broadcast.
\<close>

definition post_samples_data :: "int \<Rightarrow> int \<Rightarrow> doc \<Rightarrow> doc" where
  "post_samples_data t1 t2 body = body(''createdAt'' \<mapsto> JDate t1, ''updatedAt'' \<mapsto> JDate t2)"

definition post_stored :: "doc list \<Rightarrow> int \<Rightarrow> int \<Rightarrow> doc \<Rightarrow> doc" where
  "post_stored coll t1 t2 body = add_missing_id coll (post_samples_data t1 t2 body)"

definition post_samples_resume ::
    "conn list \<Rightarrow> doc \<Rightarrow> mongo_error option \<Rightarrow> post_response effects" where
  "post_samples_resume cs data err =
     (case err of
        None \<Rightarrow>
          \<lparr>reply = Created_201 (data ''batchId''), calls = [data],
           pushed = frames (broadcastToWS cs (new_sample data))\<rparr>
      | Some DuplicateKey \<Rightarrow> \<lparr>reply = Conflict_409, calls = [], pushed = []\<rparr>
      | Some Other_failure \<Rightarrow> \<lparr>reply = Error_500, calls = [], pushed = []\<rparr>)"

definition post_samples ::
    "bool \<Rightarrow> int \<Rightarrow> int \<Rightarrow> conn list \<Rightarrow> doc list \<Rightarrow> doc \<Rightarrow> doc list \<times> post_response effects" where
  "post_samples up t1 t2 cs coll body =
     (let r = insertOne up coll (post_samples_data t1 t2 body);
          data = post_stored coll t1 t2 body
      in (committed coll r, post_samples_resume cs data (thrown r)))"

text \<open>
  A bus message is a string. \<open>Malformed\<close> is a string on which \<^verbatim>\<open>JSON.parse\<close> throws,
  or which denotes \<^verbatim>\<open>null\<close> or a primitive, so that reading or assigning
  \<^verbatim>\<open>data.createdAt\<close> throws; \<open>Json\<close> is a string that denotes an object. The bridge
  answers nobody: its reply is the line it logs.
\<close>

datatype bus_payload = Malformed | Json doc

datatype log_line = Sample_stored | Duplicate_batch_ID | Process_error

definition processSample_data :: "int \<Rightarrow> int \<Rightarrow> doc \<Rightarrow> doc" where
  "processSample_data t1 t2 parsed =
     (let d1 = (if \<not> truthy (parsed ''createdAt'') then parsed(''createdAt'' \<mapsto> JDate t1)
                else parsed)
      in if \<not> truthy (d1 ''updatedAt'') then d1(''updatedAt'' \<mapsto> JDate t2) else d1)"

definition bus_stored :: "doc list \<Rightarrow> int \<Rightarrow> int \<Rightarrow> doc \<Rightarrow> doc" where
  "bus_stored coll t1 t2 parsed = add_missing_id coll (processSample_data t1 t2 parsed)"

definition processSample_resume ::
    "bool \<Rightarrow> conn list \<Rightarrow> doc \<Rightarrow> mongo_error option \<Rightarrow> log_line effects" where
  "processSample_resume WS_ENABLED cs data err =
     (case err of
        None \<Rightarrow>
          \<lparr>reply = Sample_stored, calls = [data],
           pushed = frames (bridge_broadcastToWS WS_ENABLED cs data)\<rparr>
      | Some DuplicateKey \<Rightarrow> \<lparr>reply = Duplicate_batch_ID, calls = [], pushed = []\<rparr>
      | Some Other_failure \<Rightarrow> \<lparr>reply = Process_error, calls = [], pushed = []\<rparr>)"

definition processSample ::
    "bool \<Rightarrow> int \<Rightarrow> int \<Rightarrow> bool \<Rightarrow> conn list \<Rightarrow> doc list \<Rightarrow> bus_payload
      \<Rightarrow> doc list \<times> log_line effects" where
  "processSample up t1 t2 WS_ENABLED cs coll payload =
     (case payload of
        Malformed \<Rightarrow> (coll, \<lparr>reply = Process_error, calls = [], pushed = []\<rparr>)
      | Json parsed \<Rightarrow>
          (let r = insertOne up coll (processSample_data t1 t2 parsed);
               data = bus_stored coll t1 t2 parsed
           in (committed coll r, processSample_resume WS_ENABLED cs data (thrown r))))"


section \<open>The paginated read\<close>

text \<open>
  The cursor \<^verbatim>\<open>find({}).sort({ createdAt: -1 }).skip(skip).limit(limit).toArray()\<close>. The
  order the store sorts in is an input (\<open>by_createdAt_desc\<close>). The store refuses a
  negative skip; a limit of 0 means no limit, a negative limit asks for at most that
  many documents in a single batch.
\<close>

definition toArray ::
    "bool \<Rightarrow> (doc list \<Rightarrow> doc list) \<Rightarrow> int \<Rightarrow> int \<Rightarrow> doc list \<Rightarrow> mongo_error + doc list" where
  "toArray up by_createdAt_desc skip limit coll =
     (if \<not> up \<or> skip < 0 then Inl Other_failure
      else (let rest = drop (nat skip) (by_createdAt_desc coll)
            in Inr (if limit = 0 then rest else take (nat \<bar>limit\<bar>) rest)))"

record page =
  samples :: "doc list"
  total_count :: nat
  limit :: int
  skip :: int

datatype get_response = Ok_200 page | Get_error_500

definition get_samples ::
    "bool \<Rightarrow> (doc list \<Rightarrow> doc list) \<Rightarrow> doc list \<Rightarrow> int option \<Rightarrow> int option \<Rightarrow> get_response" where
  "get_samples up by_createdAt_desc coll query_limit query_skip =
     (let lim = effective_limit query_limit;
          skp = effective_skip query_skip
      in case toArray up by_createdAt_desc skp lim coll of
           Inl e \<Rightarrow> Get_error_500
         | Inr found \<Rightarrow>
             Ok_200 \<lparr>samples = found, total_count = length coll, limit = lim, skip = skp\<rparr>)"


section \<open>Runs: submissions interleaved at the insert\<close>

text \<open>
  Backend and bridge are two processes on one collection. A handler runs without
  interruption up to its \<^verbatim>\<open>await insertOne\<close>, the store serves the inserts one at a
  time, and the rest of each handler runs at some later moment, in any order. A run is
  a list of steps: \<open>Arrive\<close> is a submission whose insert the store serves now,
  \<open>Resume i\<close> lets the \<open>i\<close>-th suspended handler continue.
\<close>

datatype submission = Direct doc | Bus bus_payload

record call =
  via :: submission
  db_up :: bool
  now1 :: int
  now2 :: int

datatype suspended =
    Post_waiting doc "mongo_error option"
  | Bus_waiting doc "mongo_error option"

record world =
  samplesCollection :: "doc list"
  server_wsClients :: "conn list"
  bridge_WS_ENABLED :: bool
  bridge_wsClients :: "conn list"
  waiting :: "suspended list"
  broadcast_calls :: "doc list"
  wire :: "frame list"
  http_replies :: "post_response list"
  bridge_log :: "log_line list"

datatype step = Arrive call | Resume nat

definition arrive :: "world \<Rightarrow> call \<Rightarrow> world" where
  "arrive w c =
     (case via c of
        Direct body \<Rightarrow>
          (let r = insertOne (db_up c) (samplesCollection w)
                     (post_samples_data (now1 c) (now2 c) body);
               data = post_stored (samplesCollection w) (now1 c) (now2 c) body
           in w\<lparr>samplesCollection := committed (samplesCollection w) r,
                waiting := waiting w @ [Post_waiting data (thrown r)]\<rparr>)
      | Bus Malformed \<Rightarrow> w\<lparr>bridge_log := bridge_log w @ [Process_error]\<rparr>
      | Bus (Json parsed) \<Rightarrow>
          (let r = insertOne (db_up c) (samplesCollection w)
                     (processSample_data (now1 c) (now2 c) parsed);
               data = bus_stored (samplesCollection w) (now1 c) (now2 c) parsed
           in w\<lparr>samplesCollection := committed (samplesCollection w) r,
                waiting := waiting w @ [Bus_waiting data (thrown r)]\<rparr>))"

definition resume :: "world \<Rightarrow> nat \<Rightarrow> world" where
  "resume w i =
     (if i < length (waiting w) then
        (let others = take i (waiting w) @ drop (Suc i) (waiting w)
         in case waiting w ! i of
              Post_waiting data err \<Rightarrow>
                (let e = post_samples_resume (server_wsClients w) data err
                 in w\<lparr>waiting := others,
                      broadcast_calls := broadcast_calls w @ calls e,
                      wire := wire w @ pushed e,
                      http_replies := http_replies w @ [reply e]\<rparr>)
            | Bus_waiting data err \<Rightarrow>
                (let e = processSample_resume (bridge_WS_ENABLED w) (bridge_wsClients w) data err
                 in w\<lparr>waiting := others,
                      broadcast_calls := broadcast_calls w @ calls e,
                      wire := wire w @ pushed e,
                      bridge_log := bridge_log w @ [reply e]\<rparr>))
      else w)"

fun exec :: "world \<Rightarrow> step \<Rightarrow> world" where
  "exec w (Arrive c) = arrive w c"
| "exec w (Resume i) = resume w i"

definition run :: "world \<Rightarrow> step list \<Rightarrow> world" where
  "run w steps = foldl exec w steps"

text \<open>Both processes started on a collection, nothing in flight, nothing sent.\<close>

definition started :: "doc list \<Rightarrow> conn list \<Rightarrow> bool \<Rightarrow> conn list \<Rightarrow> world" where
  "started coll server_cs enabled bridge_cs =
     \<lparr>samplesCollection = coll, server_wsClients = server_cs, bridge_WS_ENABLED = enabled,
      bridge_wsClients = bridge_cs, waiting = [], broadcast_calls = [], wire = [],
      http_replies = [], bridge_log = []\<rparr>"











section \<open>Concrete samples and subscribers\<close>

definition sampleA :: doc where
  "sampleA = [''batchId'' \<mapsto> JStr ''0xAAAA0001'', ''lat'' \<mapsto> JNum (3405 / 100),
     ''lon'' \<mapsto> JNum (- 11825 / 100), ''gpsFix'' \<mapsto> JNum 1, ''sats'' \<mapsto> JNum 6,
     ''tempC'' \<mapsto> JNum 25]"

definition sampleA_warmer :: doc where
  "sampleA_warmer = sampleA(''tempC'' \<mapsto> JNum (53 / 2))"

definition sample_dated :: doc where
  "sample_dated = sampleA(''createdAt'' \<mapsto> JStr ''2025-10-07T08:16:23.027Z'')"



definition subA :: conn where
  "subA = \<lparr>handle = 1, readyState = 1, send_throws = False\<rparr>"

definition subB :: conn where
  "subB = \<lparr>handle = 2, readyState = 1, send_throws = True\<rparr>"

definition subC :: conn where
  "subC = \<lparr>handle = 3, readyState = 1, send_throws = False\<rparr>"

text \<open>A collection of \<open>n\<close> documents with pairwise different keys.\<close>

definition numbered :: "nat \<Rightarrow> doc list" where
  "numbered n = map (\<lambda>i. [''_id'' \<mapsto> JOid (Suc i), ''batchId'' \<mapsto> JNum (of_nat i)]) [0..<n]"

text \<open>
  One batch submitted three times: posted, delivered by the bus with another
  temperature, posted again. The bridge continues first, then the two requests.
\<close>

definition post_A :: call where
  "post_A = \<lparr>via = Direct sampleA, db_up = True, now1 = 5, now2 = 6\<rparr>"

definition bus_A_warmer :: call where
  "bus_A_warmer = \<lparr>via = Bus (Json sampleA_warmer), db_up = True, now1 = 7, now2 = 8\<rparr>"

definition retries :: "step list" where
  "retries = [Arrive post_A, Arrive bus_A_warmer, Resume 1, Arrive post_A, Resume 0, Resume 0]"





section \<open>Theorems\<close>

subsection \<open>The gate\<close>

text \<open>
  C2 (as amended). The gate allows exactly when the hold lasted at least 10000 ms, the
  peer is added and has acknowledged at least once with link age below 5000 ms, the
  sensor is marked ready with age below 1200 ms, and the receiver delivered characters
  and updates less than 3000 ms ago with a valid position younger than 2000 ms and at
  least one satellite. Otherwise it denies with the first failing check in the order
  HoldTooShort, LinkDown, SensorUnhealthy, NoPositionFix. The hold threshold is compared
  with \<open>\<ge>\<close>, every timeout with \<open><\<close>. Whenever the gate allows, the four conditions
  of the specification hold.
\<close>

theorem hard_gate_decision:
  "(hard_gate c s g = Allow \<longleftrightarrow>
      hold_duration c s \<ge> 10000 \<and> linkOK (at_link c) s \<and>
      mpuHealthy (at_mpu c) s \<and> gpsFixOK c s g) \<and>
   (hard_gate c s g = Deny HoldTooShort \<longleftrightarrow> hold_duration c s < 10000) \<and>
   (hard_gate c s g = Deny LinkDown \<longleftrightarrow>
      hold_duration c s \<ge> 10000 \<and> \<not> linkOK (at_link c) s) \<and>
   (hard_gate c s g = Deny SensorUnhealthy \<longleftrightarrow>
      hold_duration c s \<ge> 10000 \<and> linkOK (at_link c) s \<and> \<not> mpuHealthy (at_mpu c) s) \<and>
   (hard_gate c s g = Deny NoPositionFix \<longleftrightarrow>
      hold_duration c s \<ge> 10000 \<and> linkOK (at_link c) s \<and> mpuHealthy (at_mpu c) s \<and>
      \<not> gpsFixOK c s g) \<and>
   (linkOK (at_link c) s \<longleftrightarrow>
      peerAdded s \<and> lastSendSuccessTs s \<noteq> 0 \<and> link_age c s < 5000) \<and>
   (mpuHealthy (at_mpu c) s \<longleftrightarrow> mpuReady s \<and> sensor_age c s < 1200) \<and>
   (gpsFixOK c s g \<longleftrightarrow>
      at_gps_char c - lastGpsCharMs s < 3000 \<and> at_gps_update c - lastGpsUpdateMs s < 3000 \<and>
      location_isValid g \<and> location_age g < 2000 \<and> satellites_value g \<ge> 1) \<and>
   (hard_gate c s g = Allow \<longrightarrow> spec_conditions c s g)"
  by (auto simp: hard_gate_def Let_def hold_duration_def link_age_def sensor_age_def
      TEN_SEC_MS_def linkOK_def mpuHealthy_def gpsFixOK_def gpsPresent_def gpsFresh_def
      spec_conditions_def)

theorem hard_gate_decision_witness:
  "hard_gate (tick 20100) healthy fix6 = Allow \<and>
   hold_duration (tick 20100) healthy = 10000 \<and>
   hard_gate (tick 20099) healthy fix6 = Deny HoldTooShort \<and>
   hold_duration (tick 20099) healthy = 9999"
  using hard_gate_decision [of "tick 20100" healthy fix6]
    hard_gate_decision [of "tick 20099" healthy fix6]
  by (simp add: hold_duration_def linkOK_def mpuHealthy_def gpsFixOK_def gpsPresent_def
      gpsFresh_def tick_def healthy_def fix6_def)

text \<open>
  C2 as stated fails: with the sensor flagged not ready, the four conditions of the
  specification hold (hold of 10000 ms, link age 100 ms, sensor age 100 ms, valid position
  100 ms old with 6 satellites) and the gate denies.
\<close>

theorem hard_gate_spec_counterexample:
  "spec_conditions (tick 20100) unplugged fix6 \<and>
   hard_gate (tick 20100) unplugged fix6 = Deny SensorUnhealthy"
  by (simp add: spec_conditions_def hard_gate_def Let_def hold_duration_def link_age_def
      sensor_age_def TEN_SEC_MS_def linkOK_def mpuHealthy_def tick_def unplugged_def
      healthy_def fix6_def)

text \<open>
  C10 (as amended). While the last-acknowledgement stamp still holds its initial 0, the
  gate denies every request whatever the sensor and the position are: with HoldTooShort
  when the hold was shorter than 10000 ms, with LinkDown otherwise, also where the raw
  age \<open>millis() - 0\<close> is below 5000 ms.
\<close>

theorem never_acked_denied:
  assumes "lastSendSuccessTs s = 0"
  shows "hard_gate c s g =
     (if hold_duration c s < 10000 then Deny HoldTooShort else Deny LinkDown)"
proof -
  from assms have down: "\<not> linkOK (at_link c) s"
    by (simp add: linkOK_def)
  show ?thesis
  proof (cases "hold_duration c s < 10000")
    case True
    then show ?thesis
      by (simp add: hard_gate_def Let_def hold_duration_def TEN_SEC_MS_def)
  next
    case False
    with down show ?thesis
      by (simp add: hard_gate_def Let_def hold_duration_def TEN_SEC_MS_def)
  qed
qed

theorem never_acked_denied_witness:
  "lastSendSuccessTs never_acked = 0 \<and> link_age (tick 3000) never_acked < 5000 \<and>
   hold_duration (tick 3000) never_acked = 11000 \<and>
   mpuHealthy 3000 never_acked \<and> gpsFixOK (tick 3000) never_acked fix6 \<and>
   hard_gate (tick 3000) never_acked fix6 = Deny LinkDown"
proof -
  have z: "lastSendSuccessTs never_acked = 0"
    by (simp add: never_acked_def)
  show ?thesis
    using never_acked_denied [OF z, of "tick 3000" fix6]
    by (simp add: never_acked_def tick_def fix6_def hold_duration_def link_age_def
        mpuHealthy_def gpsFixOK_def gpsPresent_def gpsFresh_def)
qed

text \<open>
  C10 as stated fails: four seconds into a hold that started one second after boot, with
  no acknowledgement yet, the request is denied as too short, not as link-down.
\<close>

theorem never_acked_short_hold_counterexample:
  "lastSendSuccessTs just_booted = 0 \<and> hold_duration (tick 5000) just_booted = 4000 \<and>
   hard_gate (tick 5000) just_booted fix6 = Deny HoldTooShort \<and>
   hard_gate (tick 5000) just_booted fix6 \<noteq> Deny LinkDown"
  by (simp add: hard_gate_def Let_def hold_duration_def TEN_SEC_MS_def just_booted_def
      tick_def)

subsection \<open>The limit\<close>

text \<open>
  C4 (as amended). The limit handed to the query is 100 when no limit is given, when it
  is not a number and when it is 0; for every other integer it is the smaller of the
  request and 1000, so a negative request is passed on as it is. It never exceeds 1000,
  and for a request of at least 1 it is \<open>max 1 (min requested 1000)\<close>. The page
  reports that limit and, when it is positive, holds at most that many records: a
  request with limit 5000 returns at most 1000.
\<close>

theorem effective_limit_cases:
  "effective_limit None = 100 \<and> effective_limit (Some 0) = 100 \<and>
   (n \<noteq> 0 \<longrightarrow> effective_limit (Some n) = min n 1000) \<and>
   (1 \<le> n \<longrightarrow> effective_limit (Some n) = spec_limit (Some n)) \<and>
   effective_limit p \<le> 1000 \<and>
   (get_samples up by_createdAt_desc coll p q = Ok_200 pg \<longrightarrow>
      limit pg = effective_limit p \<and>
      (0 < effective_limit p \<longrightarrow> int (length (samples pg)) \<le> effective_limit p))"
proof -
  have a: "effective_limit None = 100 \<and> effective_limit (Some 0) = 100 \<and>
      (n \<noteq> 0 \<longrightarrow> effective_limit (Some n) = min n 1000) \<and>
      (1 \<le> n \<longrightarrow> effective_limit (Some n) = spec_limit (Some n)) \<and>
      effective_limit p \<le> 1000"
    by (auto simp: effective_limit_def or_default_def spec_limit_def split: option.splits)
  have b: "limit pg = effective_limit p \<and>
      (0 < effective_limit p \<longrightarrow> int (length (samples pg)) \<le> effective_limit p)"
    if "get_samples up by_createdAt_desc coll p q = Ok_200 pg"
    using that
    by (auto simp: get_samples_def toArray_def Let_def split: if_splits)
  from a b show ?thesis by blast
qed

theorem effective_limit_cases_witness:
  "effective_limit (Some 5000) = 1000 \<and> effective_limit (Some (- 5)) = - 5 \<and>
   get_samples True (\<lambda>xs. xs) (numbered 1200) (Some 5000) None =
     Ok_200 \<lparr>samples = numbered 1000, total_count = 1200, limit = 1000, skip = 0\<rparr> \<and>
   length (numbered 1000) \<le> 1000"
proof -
  let ?pg = "\<lparr>samples = numbered 1000, total_count = 1200, limit = 1000, skip = 0\<rparr>"
  have page: "get_samples True (\<lambda>xs. xs) (numbered 1200) (Some 5000) None = Ok_200 ?pg"
    by (simp add: get_samples_def toArray_def effective_limit_def effective_skip_def
        or_default_def numbered_def take_map)
  note big = effective_limit_cases [of 5000 "Some 5000" True "\<lambda>xs. xs" "numbered 1200" None ?pg]
  have l: "effective_limit (Some 5000) = 1000"
    using big by simp
  have c: "length (numbered 1000) \<le> 1000"
    using big page l by simp
  have n: "effective_limit (Some (- 5)) = - 5"
    using effective_limit_cases [of "- 5" None] by simp
  from l n page c show ?thesis by simp
qed

text \<open>C4 as stated fails: a request of 0 is served with limit 100, not 1.\<close>

theorem effective_limit_zero_counterexample:
  "effective_limit (Some 0) = 100 \<and> spec_limit (Some 0) = 1"
  by (simp add: effective_limit_def or_default_def spec_limit_def)

subsection \<open>The store under its unique indexes\<close>

lemma batch_keys_post_samples_data [simp]:
  "batch_keys (post_samples_data t1 t2 body) = batch_keys body"
  by (simp add: batch_keys_def post_samples_data_def)

lemma batch_keys_processSample_data [simp]:
  "batch_keys (processSample_data t1 t2 parsed) = batch_keys parsed"
  by (simp add: batch_keys_def processSample_data_def Let_def)

lemma batch_keys_add_missing_id [simp]:
  "batch_keys (add_missing_id coll d) = batch_keys d"
  by (simp add: batch_keys_def add_missing_id_def)

lemma indexed_under_add_missing_id [simp]:
  "indexed_under k (add_missing_id coll d) = indexed_under k d"
  by (simp add: indexed_under_def)

lemma id_post_samples_data [simp]:
  "post_samples_data t1 t2 body ''_id'' = body ''_id''"
  by (simp add: post_samples_data_def)

lemma id_processSample_data [simp]:
  "processSample_data t1 t2 parsed ''_id'' = parsed ''_id''"
  by (simp add: processSample_data_def Let_def)

lemma add_missing_id_id:
  "add_missing_id coll d ''_id'' =
     (if lacks_id (d ''_id'') then Some (createPk coll) else d ''_id'')"
  by (simp add: add_missing_id_def)

lemma add_missing_id_other:
  "f \<noteq> ''_id'' \<Longrightarrow> add_missing_id coll d f = d f"
  by (simp add: add_missing_id_def)

lemma taken_keys_only:
  "d ''_id'' = d' ''_id'' \<Longrightarrow> batch_keys d = batch_keys d' \<Longrightarrow> taken coll d = taken coll d'"
  by (simp add: taken_def clash_def)

lemma taken_post:
  "taken coll (add_missing_id coll (post_samples_data t1 t2 body)) = collides coll body"
  unfolding collides_def by (rule taken_keys_only) (simp_all add: add_missing_id_id)

lemma taken_bus:
  "taken coll (add_missing_id coll (processSample_data t1 t2 parsed)) = collides coll parsed"
  unfolding collides_def by (rule taken_keys_only) (simp_all add: add_missing_id_id)







lemma committed_prefix: "take (length coll) (committed coll (insertOne up coll d)) = coll"
  by (simp add: committed_def insertOne_def Let_def)







subsection \<open>The handlers by cases\<close>

lemma batchId_post_stored [simp]:
  "post_stored coll t1 t2 body ''batchId'' = body ''batchId''"
  by (simp add: post_stored_def add_missing_id_def post_samples_data_def)

lemma insertOne_post:
  "insertOne up coll (post_samples_data t1 t2 body) =
     (if \<not> up then Inl Other_failure
      else if collides coll body then Inl DuplicateKey
      else Inr (coll @ [post_stored coll t1 t2 body]))"
  by (simp add: insertOne_def Let_def taken_post post_stored_def)

lemma insertOne_bus:
  "insertOne up coll (processSample_data t1 t2 parsed) =
     (if \<not> up then Inl Other_failure
      else if collides coll parsed then Inl DuplicateKey
      else Inr (coll @ [bus_stored coll t1 t2 parsed]))"
  by (simp add: insertOne_def Let_def taken_bus bus_stored_def)

lemma post_samples_cases:
  "post_samples up t1 t2 cs coll body =
     (if \<not> up then (coll, \<lparr>reply = Error_500, calls = [], pushed = []\<rparr>)
      else if collides coll body then (coll, \<lparr>reply = Conflict_409, calls = [], pushed = []\<rparr>)
      else (coll @ [post_stored coll t1 t2 body],
            \<lparr>reply = Created_201 (body ''batchId''), calls = [post_stored coll t1 t2 body],
             pushed = frames (broadcastToWS cs (new_sample (post_stored coll t1 t2 body)))\<rparr>))"
  by (simp add: post_samples_def Let_def insertOne_post committed_def thrown_def
      post_samples_resume_def)

lemma processSample_cases:
  "processSample up t1 t2 en bs coll (Json parsed) =
     (if \<not> up then (coll, \<lparr>reply = Process_error, calls = [], pushed = []\<rparr>)
      else if collides coll parsed
        then (coll, \<lparr>reply = Duplicate_batch_ID, calls = [], pushed = []\<rparr>)
      else (coll @ [bus_stored coll t1 t2 parsed],
            \<lparr>reply = Sample_stored, calls = [bus_stored coll t1 t2 parsed],
             pushed = frames (bridge_broadcastToWS en bs (bus_stored coll t1 t2 parsed))\<rparr>))"
  by (simp add: processSample_def Let_def insertOne_bus committed_def thrown_def
      processSample_resume_def)









subsection \<open>Steps of a run\<close>

lemma resume_collection: "samplesCollection (resume w i) = samplesCollection w"
  by (simp add: resume_def Let_def split: suspended.splits)

text \<open>
  A handler that continues right after its own insert does what the handler run in one
  piece does.
\<close>

lemma post_in_one_go:
  assumes "via c = Direct body"
  shows "resume (arrive w c) (length (waiting w)) =
     (let (coll', e) = post_samples (db_up c) (now1 c) (now2 c) (server_wsClients w)
                         (samplesCollection w) body
      in w\<lparr>samplesCollection := coll',
           broadcast_calls := broadcast_calls w @ calls e,
           wire := wire w @ pushed e,
           http_replies := http_replies w @ [reply e]\<rparr>)"
  using assms
  by (simp add: arrive_def resume_def post_samples_def Let_def nth_append)

lemma bus_in_one_go:
  assumes "via c = Bus (Json parsed)"
  shows "resume (arrive w c) (length (waiting w)) =
     (let (coll', e) = processSample (db_up c) (now1 c) (now2 c) (bridge_WS_ENABLED w)
                         (bridge_wsClients w) (samplesCollection w) (Json parsed)
      in w\<lparr>samplesCollection := coll',
           broadcast_calls := broadcast_calls w @ calls e,
           wire := wire w @ pushed e,
           bridge_log := bridge_log w @ [reply e]\<rparr>)"
  using assms
  by (simp add: arrive_def resume_def processSample_def Let_def nth_append)

lemma malformed_in_one_go:
  assumes "via c = Bus Malformed"
  shows "arrive w c =
     (let (coll', e) = processSample (db_up c) (now1 c) (now2 c) (bridge_WS_ENABLED w)
                         (bridge_wsClients w) (samplesCollection w) Malformed
      in w\<lparr>samplesCollection := coll',
           broadcast_calls := broadcast_calls w @ calls e,
           wire := wire w @ pushed e,
           bridge_log := bridge_log w @ [reply e]\<rparr>)"
  using assms
  by (simp add: arrive_def processSample_def Let_def)
















lemma arrive_prefix:
  "take (length (samplesCollection w)) (samplesCollection (arrive w c)) = samplesCollection w"
  by (simp add: arrive_def Let_def committed_prefix split: submission.splits bus_payload.splits)

lemma exec_prefix:
  "take (length (samplesCollection w)) (samplesCollection (exec w s)) = samplesCollection w"
  by (cases s) (simp_all add: arrive_prefix resume_collection)

lemma take_take_prefix:
  "take (length xs) ys = xs \<Longrightarrow> take (length ys) zs = ys \<Longrightarrow> take (length xs) zs = xs"
  by (metis append_eq_conv_conj append_take_drop_id append.assoc)

lemma run_prefix:
  "take (length (samplesCollection w)) (samplesCollection (run w steps)) = samplesCollection w"
  unfolding run_def
proof (induction steps arbitrary: w)
  case Nil
  show ?case by simp
next
  case (Cons s steps)
  have "take (length (samplesCollection (exec w s)))
      (samplesCollection (foldl exec (exec w s) steps)) = samplesCollection (exec w s)"
    by (rule Cons.IH)
  with exec_prefix [of w s] show ?case
    by (simp add: take_take_prefix)
qed


subsection \<open>Deduplication\<close>






subsection \<open>What is rejected\<close>




subsection \<open>Broadcast\<close>

lemma forEach_send_frames:
  "fst (forEach_send m cs n) =
     map (\<lambda>c. (handle c, m)) (filter (\<lambda>c. readyState c = 1 \<and> \<not> send_throws c) cs)"
  by (induction cs arbitrary: n) (auto simp: case_prod_unfold Let_def)

lemma forEach_send_sent:
  "snd (forEach_send m cs n) =
     n + length (filter (\<lambda>c. readyState c = 1 \<and> \<not> send_throws c) cs)"
  by (induction cs arbitrary: n) (auto simp: case_prod_unfold Let_def)


text \<open>
  C7 (as amended). \<^verbatim>\<open>broadcastToWS\<close> builds one payload and sends it, in the order of
  the set, to every subscriber that is open; a subscriber that is not open is skipped
  and one whose send throws is logged, neither stops the delivery to the others, and
  the function returns normally. It leaves the live set as it was: a connection leaves
  the set only when its own close or error handler runs, which removes that connection
  and no other.
\<close>

theorem broadcast_isolation:
  "frames (broadcastToWS cs m) =
     map (\<lambda>c. (handle c, m)) (filter (\<lambda>c. readyState c = 1 \<and> \<not> send_throws c) cs) \<and>
   sent (broadcastToWS cs m) =
     length (filter (\<lambda>c. readyState c = 1 \<and> \<not> send_throws c) cs) \<and>
   wsClients (broadcastToWS cs m) = cs \<and>
   handle ws \<notin> set (map handle (on_error ws cs)) \<and>
   handle ws \<notin> set (map handle (on_close ws cs)) \<and>
   (handle c \<noteq> handle ws \<longrightarrow>
      (c \<in> set (on_error ws cs) \<longleftrightarrow> c \<in> set cs) \<and>
      (c \<in> set (on_close ws cs) \<longleftrightarrow> c \<in> set cs))"
  by (auto simp: broadcastToWS_def Let_def case_prod_unfold forEach_send_frames
      forEach_send_sent on_error_def on_close_def wsClients_delete_def)

theorem broadcast_isolation_witness:
  "frames (broadcastToWS [subA, subB, subC] (new_sample sampleA)) =
     [(1, new_sample sampleA), (3, new_sample sampleA)] \<and>
   on_error subB (wsClients (broadcastToWS [subA, subB, subC] (new_sample sampleA))) =
     [subA, subC]"
  using broadcast_isolation [of "[subA, subB, subC]" "new_sample sampleA" subB subA]
  by (simp add: subA_def subB_def subC_def on_error_def wsClients_delete_def)

text \<open>
  C7 as stated fails: with subscribers A, B, C where the send to B throws, A and C
  receive the sample and B is still in the set when the broadcast has returned.
\<close>

theorem broadcast_keeps_failed_counterexample:
  "send_throws subB \<and>
   frames (broadcastToWS [subA, subB, subC] (new_sample sampleA)) =
     [(1, new_sample sampleA), (3, new_sample sampleA)] \<and>
   wsClients (broadcastToWS [subA, subB, subC] (new_sample sampleA)) = [subA, subB, subC]"
  by (simp add: broadcastToWS_def Let_def subA_def subB_def subC_def)

subsection \<open>The two paths compared\<close>




subsection \<open>Timestamps\<close>

text \<open>
  C9 (as amended). The timestamps \<^verbatim>\<open>createdAt\<close> and \<^verbatim>\<open>updatedAt\<close> are assigned in the
  submit step, before the insert. The request path always sets both from the server's
  clock, whatever the payload carried. The bus path sets each only when it is absent or
  falsy, so a sample that arrives on the bus with a timestamp keeps it. What either
  path stores is that document, appended, with nothing changed but the \<^verbatim>\<open>_id\<close> the
  driver may add; no step of any run rewrites a record that is already stored.
\<close>

theorem timestamps_assigned_before_insert:
  "post_samples_data t1 t2 body ''createdAt'' = Some (JDate t1) \<and>
   post_samples_data t1 t2 body ''updatedAt'' = Some (JDate t2) \<and>
   processSample_data t1 t2 body ''createdAt'' =
     (if truthy (body ''createdAt'') then body ''createdAt'' else Some (JDate t1)) \<and>
   processSample_data t1 t2 body ''updatedAt'' =
     (if truthy (body ''updatedAt'') then body ''updatedAt'' else Some (JDate t2)) \<and>
   post_stored coll t1 t2 body ''createdAt'' = post_samples_data t1 t2 body ''createdAt'' \<and>
   post_stored coll t1 t2 body ''updatedAt'' = post_samples_data t1 t2 body ''updatedAt'' \<and>
   bus_stored coll t1 t2 body ''createdAt'' = processSample_data t1 t2 body ''createdAt'' \<and>
   bus_stored coll t1 t2 body ''updatedAt'' = processSample_data t1 t2 body ''updatedAt'' \<and>
   (\<forall>f. f \<noteq> ''_id'' \<longrightarrow>
      post_stored coll t1 t2 body f = post_samples_data t1 t2 body f \<and>
      bus_stored coll t1 t2 body f = processSample_data t1 t2 body f) \<and>
   (fst (post_samples up t1 t2 cs coll body) = coll \<or>
    fst (post_samples up t1 t2 cs coll body) = coll @ [post_stored coll t1 t2 body]) \<and>
   (fst (processSample up t1 t2 en bs coll (Json body)) = coll \<or>
    fst (processSample up t1 t2 en bs coll (Json body)) = coll @ [bus_stored coll t1 t2 body]) \<and>
   take (length (samplesCollection w)) (samplesCollection (run w steps)) = samplesCollection w"
proof -
  have d: "post_samples_data t1 t2 body ''createdAt'' = Some (JDate t1) \<and>
   post_samples_data t1 t2 body ''updatedAt'' = Some (JDate t2)"
    by (simp add: post_samples_data_def)
  have b: "processSample_data t1 t2 body ''createdAt'' =
     (if truthy (body ''createdAt'') then body ''createdAt'' else Some (JDate t1)) \<and>
   processSample_data t1 t2 body ''updatedAt'' =
     (if truthy (body ''updatedAt'') then body ''updatedAt'' else Some (JDate t2))"
    by (simp add: processSample_data_def Let_def)
  have s: "post_stored coll t1 t2 body ''createdAt'' = post_samples_data t1 t2 body ''createdAt'' \<and>
   post_stored coll t1 t2 body ''updatedAt'' = post_samples_data t1 t2 body ''updatedAt'' \<and>
   bus_stored coll t1 t2 body ''createdAt'' = processSample_data t1 t2 body ''createdAt'' \<and>
   bus_stored coll t1 t2 body ''updatedAt'' = processSample_data t1 t2 body ''updatedAt''"
    by (simp add: post_stored_def bus_stored_def add_missing_id_other)
  have o: "\<forall>f. f \<noteq> ''_id'' \<longrightarrow>
      post_stored coll t1 t2 body f = post_samples_data t1 t2 body f \<and>
      bus_stored coll t1 t2 body f = processSample_data t1 t2 body f"
    by (simp add: post_stored_def bus_stored_def add_missing_id_other)
  have p: "fst (post_samples up t1 t2 cs coll body) = coll \<or>
    fst (post_samples up t1 t2 cs coll body) = coll @ [post_stored coll t1 t2 body]"
    by (simp add: post_samples_cases)
  have q: "fst (processSample up t1 t2 en bs coll (Json body)) = coll \<or>
    fst (processSample up t1 t2 en bs coll (Json body)) = coll @ [bus_stored coll t1 t2 body]"
    by (simp add: processSample_cases)
  from d b s o p q run_prefix [of w steps] show ?thesis by blast
qed

theorem timestamps_assigned_before_insert_witness:
  "processSample_data 5 6 sample_dated ''createdAt'' = Some (JStr ''2025-10-07T08:16:23.027Z'') \<and>
   processSample_data 5 6 sample_dated ''updatedAt'' = Some (JDate 6) \<and>
   take 1 (samplesCollection (run (started [sampleA] [] True []) retries)) = [sampleA]"
  using timestamps_assigned_before_insert
    [of 5 6 sample_dated "[]" True "[]" True "[]" "started [sampleA] [] True []" retries]
  by (simp add: sample_dated_def sampleA_def started_def)

text \<open>
  C9 as stated fails: a posted sample that already carries \<^verbatim>\<open>createdAt\<close> is stored
  with the server's clock in that field.
\<close>

theorem timestamp_overwritten_counterexample:
  "sample_dated ''createdAt'' = Some (JStr ''2025-10-07T08:16:23.027Z'') \<and>
   fst (post_samples True 5 6 [] [] sample_dated) = [post_stored [] 5 6 sample_dated] \<and>
   post_stored [] 5 6 sample_dated ''createdAt'' = Some (JDate 5)"
  by (simp add: post_samples_def Let_def insertOne_def committed_def taken_def
      post_stored_def add_missing_id_def post_samples_data_def sample_dated_def)

end
